theory Spec2Isabelle
  imports Complex_Main "HOL-Library.Sublist"
begin

section \<open>Number formatting: \<open>formatTime\<close>\<close>

text \<open>
  Both screens (\<open>App.tsx\<close> and the upload variant) define the same function:
  \<^verbatim>\<open>
  function formatTime(seconds: number): string {
    const mins = Math.floor(seconds / 60);
    const secs = seconds % 60;
    return `${mins.toString().padStart(2, "0")}:${secs.toString().padStart(2, "0")}`;
  }
  \<close>
  Its only caller passes \<open>durationSeconds\<close>, a count of whole seconds, so the argument is
  a natural number here. On such a number \<open>Math.floor(seconds / 60)\<close> is \<open>div\<close> and
  \<open>%\<close> is \<open>mod\<close>.
\<close>

definition digit_char :: "nat \<Rightarrow> char" where
  "digit_char d = ''0123456789'' ! d"

text \<open>\<open>Number.prototype.toString\<close> on a non-negative integer: its decimal digits, no
  leading zero.\<close>

fun toString :: "nat \<Rightarrow> string" where
  "toString n = (if n < 10 then [digit_char n] else toString (n div 10) @ [digit_char (n mod 10)])"

declare toString.simps [simp del]

text \<open>\<open>String.prototype.padStart(targetLength, padString)\<close>: the string itself when it is
  long enough or the padding is empty, otherwise the padding repeated and cut to the
  missing length, then the string.\<close>

definition padStart :: "nat \<Rightarrow> string \<Rightarrow> string \<Rightarrow> string" where
  "padStart n pad s =
     (if n \<le> length s \<or> pad = [] then s
      else take (n - length s) (concat (replicate (n - length s) pad)) @ s)"

definition formatTime :: "nat \<Rightarrow> string" where
  "formatTime seconds =
     (let mins = seconds div 60;
          secs = seconds mod 60
      in padStart 2 ''0'' (toString mins) @ '':'' @ padStart 2 ''0'' (toString secs))"

text \<open>Reading a rendering back: the number a string of decimal digits denotes, and the
  test that a character is a decimal digit.\<close>

definition is_digit :: "char \<Rightarrow> bool" where
  "is_digit c = (c \<in> set ''0123456789'')"

definition digit_value :: "char \<Rightarrow> nat" where
  "digit_value c = of_char c - 48"

definition decimal_value :: "string \<Rightarrow> nat" where
  "decimal_value cs = foldl (\<lambda>a c. 10 * a + digit_value c) 0 cs"

section \<open>MIME types: \<open>normalizeAudioMimeType\<close>\<close>

text \<open>
  \<^verbatim>\<open>
  function normalizeAudioMimeType(mimeType: string): string {
    const mimeTypeMap: Record<string, string> = {
      "audio/x-m4a": "audio/m4a",
      "audio/x-wav": "audio/wav",
      "audio/vnd.wave": "audio/wav",
    };
    return mimeTypeMap[mimeType] || mimeType;
  }
  \<close>
  \<open>mimeTypeMap\<close> is an object literal, so \<open>mimeTypeMap[mimeType]\<close> is JavaScript's
  property lookup: the object's own properties first, then those of its prototype,
  \<open>Object.prototype\<close>. The value found there is a function (or, under \<open>__proto__\<close>,
  the prototype object itself), never a string, and it is truthy. The result of the
  function is therefore a JavaScript value that is a string or such an inherited member.
\<close>

datatype js_value =
    JString string
  | JInherited string  \<comment> \<open>the member of \<open>Object.prototype\<close> stored under that name\<close>

text \<open>The property names of \<open>Object.prototype\<close> (ECMAScript 20.1.3 and B.2.2).\<close>

definition object_prototype_keys :: "string list" where
  "object_prototype_keys =
     [''constructor'', ''hasOwnProperty'', ''isPrototypeOf'', ''propertyIsEnumerable'',
      ''toLocaleString'', ''toString'', ''valueOf'', ''__proto__'',
      ''__defineGetter__'', ''__defineSetter__'', ''__lookupGetter__'', ''__lookupSetter__'']"

definition mimeTypeMap :: "(string \<times> string) list" where
  "mimeTypeMap =
     [(''audio/x-m4a'', ''audio/m4a''),
      (''audio/x-wav'', ''audio/wav''),
      (''audio/vnd.wave'', ''audio/wav'')]"

text \<open>\<open>obj[key]\<close> on an object literal with string-valued own properties; \<open>None\<close> is
  \<open>undefined\<close>.\<close>

definition get_property :: "(string \<times> string) list \<Rightarrow> string \<Rightarrow> js_value option" where
  "get_property obj k =
     (case map_of obj k of
        Some v \<Rightarrow> Some (JString v)
      | None \<Rightarrow> if k \<in> set object_prototype_keys then Some (JInherited k) else None)"

fun truthy :: "js_value \<Rightarrow> bool" where
  "truthy (JString s) = (s \<noteq> [])"
| "truthy (JInherited k) = True"

definition normalizeAudioMimeType :: "string \<Rightarrow> js_value" where
  "normalizeAudioMimeType mimeType =
     (case get_property mimeTypeMap mimeType of
        Some v \<Rightarrow> if truthy v then v else JString mimeType
      | None \<Rightarrow> JString mimeType)"

text \<open>Applying the function to its own result. A string result is looked up again; an
  inherited member used as a property key is converted to its source text or to
  \<open>[object Object]\<close>, which is no property of the map or of its prototype, so the member
  comes back.\<close>

fun normalize_again :: "js_value \<Rightarrow> js_value" where
  "normalize_again (JString s) = normalizeAudioMimeType s"
| "normalize_again (JInherited k) = JInherited k"

section \<open>Errors, alerts and the recorder's status\<close>

text \<open>A thrown value, with its \<open>message\<close> property (\<open>None\<close> when it has none).\<close>

datatype js_error = JsError (message: "string option")

text \<open>\<open>error.message || fallback\<close>: the fallback replaces an undefined or empty message.\<close>

definition message_or :: "js_error \<Rightarrow> string \<Rightarrow> string" where
  "message_or e fallback =
     (case message e of
        None \<Rightarrow> fallback
      | Some m \<Rightarrow> if m = [] then fallback else m)"

text \<open>What the \<open>onPress\<close> of an alert button does.\<close>

datatype button_press = NoHandler | StopRecorder

record alert_button =
  label :: string
  style :: string
  onPress :: button_press

text \<open>\<open>Alert.alert(title, message, buttons?)\<close>; the message is \<open>None\<close> when the code
  passes an undefined one.\<close>

datatype alert = Alert (title: string) (body: "string option") (buttons: "alert_button list")

text \<open>The fields of \<open>recorderState\<close> (from \<open>useAudioRecorderState\<close>) that the handlers
  read. A handler sees the value of its last render.\<close>

record recorder_state =
  durationMillis :: "nat option"
  isRecording :: bool

text \<open>\<open>Math.round(a / b)\<close> for non-negative integers: the nearest integer, a half rounded
  up.\<close>

definition math_round_div :: "nat \<Rightarrow> nat \<Rightarrow> nat" where
  "math_round_div a b = (2 * a + b) div (2 * b)"

text \<open>\<open>durationSeconds\<close>, the whole seconds shown by the timer and tested by the buttons'
  \<open>disabled\<close> attributes.\<close>

definition durationSeconds :: "recorder_state \<Rightarrow> nat" where
  "durationSeconds rs =
     (case durationMillis rs of
        None \<Rightarrow> 0
      | Some d \<Rightarrow> if d = 0 then 0 else d div 1000)"

section \<open>The platform\<close>

text \<open>
  The audio session, the recorder, the players, the file system, the clock and the backend
  are outside the repository. They are a parameter: a state \<open>'w\<close> of the outside world
  and one function per call the handlers make. A call that can throw returns the error
  beside the world it leaves.
\<close>

record audio_mode =
  playsInSilentMode :: bool
  allowsRecording :: bool
  interruptionMode :: "string option"

record recording_options =
  extension :: string
  outputFormat :: string
  audioQuality :: nat

text \<open>A fetched blob: its size in bytes and its \<open>_data?.type\<close>.\<close>

record blob =
  blob_size :: nat
  blob_data_type :: "string option"

record audio_file =
  file_uri :: string
  file_name :: string
  file_type :: js_value

record 'w platform =
  setAudioModeAsync :: "audio_mode \<Rightarrow> 'w \<Rightarrow> js_error option \<times> 'w"
  prepareToRecordAsync :: "recording_options \<Rightarrow> 'w \<Rightarrow> js_error option \<times> 'w"
  recorder_record :: "'w \<Rightarrow> js_error option \<times> 'w"
  recorder_pause :: "'w \<Rightarrow> js_error option \<times> 'w"
  recorder_stop :: "'w \<Rightarrow> js_error option \<times> 'w"
  recorder_uri :: "'w \<Rightarrow> string option"
  getStatus :: "'w \<Rightarrow> recorder_state"
  fetch_blob :: "string \<Rightarrow> 'w \<Rightarrow> (js_error + blob) \<times> 'w"
  date_now :: "'w \<Rightarrow> nat"
  player_pause :: "string \<Rightarrow> 'w \<Rightarrow> js_error option \<times> 'w"
  player_seekTo :: "string \<Rightarrow> real \<Rightarrow> 'w \<Rightarrow> js_error option \<times> 'w"
  player_play :: "string \<Rightarrow> 'w \<Rightarrow> js_error option \<times> 'w"
  functions_invoke :: "string \<Rightarrow> audio_file \<Rightarrow> 'w \<Rightarrow> (js_error + js_error option) \<times> 'w"

text \<open>What a handler leaves behind: the component's state, the alerts it raised in order,
  the outside world, and the error of a rejected promise nobody caught.\<close>

record ('s, 'w) outcome =
  app :: 's
  alerts :: "alert list"
  world :: 'w
  uncaught :: "js_error option"

text \<open>What a screen can read from the recorder: \<open>recorderState\<close> and
  \<open>audioRecorder.uri\<close>.\<close>

definition observed :: "'w platform \<Rightarrow> 'w \<Rightarrow> recorder_state \<times> string option" where
  "observed P w = (getStatus P w, recorder_uri P w)"

definition recording_mode :: audio_mode where
  "recording_mode =
     \<lparr>playsInSilentMode = True, allowsRecording = True, interruptionMode = Some ''doNotMix''\<rparr>"

definition playback_mode :: audio_mode where
  "playback_mode =
     \<lparr>playsInSilentMode = True, allowsRecording = False, interruptionMode = None\<rparr>"

definition wav_options :: recording_options where
  "wav_options = \<lparr>extension = ''.wav'', outputFormat = ''LINEARPCM'', audioQuality = 96\<rparr>"

section \<open>The recorder screen with the video toggle (\<open>App.tsx\<close>)\<close>

record recording =
  rec_id :: nat  \<comment> \<open>the field \<open>id\<close>\<close>
  uri :: string
  duration :: nat
  fileSize :: nat

text \<open>The three \<open>useState\<close> cells of \<open>App\<close>.\<close>

record app_state =
  videoEnabled :: bool
  recordings :: "recording list"
  playingId :: "nat option"

definition initial_app_state :: app_state where
  "initial_app_state = \<lparr>videoEnabled = True, recordings = [], playingId = None\<rparr>"

subsection \<open>\<open>handleRecord\<close>\<close>

text \<open>
  \<^verbatim>\<open>
  const handleRecord = async () => {
    try {
      if (recorderState.durationMillis === undefined || recorderState.durationMillis === 0) {
        await setAudioModeAsync({ playsInSilentMode: true, allowsRecording: true,
                                  interruptionMode: "doNotMix" });
        await audioRecorder.prepareToRecordAsync({
          ios: { extension: ".wav", outputFormat: IOSOutputFormat.LINEARPCM, audioQuality: 96 } });
        audioRecorder.record();
      } else if (recorderState.isRecording) {
        audioRecorder.pause();
      } else {
        audioRecorder.record();
      }
    } catch (error: any) {
      Alert.alert("Recording failed", error.message || "Could not record");
    }
  };
  \<close>
  The calls to \<open>console\<close> are left out here and below. First the body of the \<open>try\<close>
  block: the first call that throws ends it.
\<close>

definition handleRecord_try :: "'w platform \<Rightarrow> recorder_state \<Rightarrow> 'w \<Rightarrow> js_error option \<times> 'w" where
  "handleRecord_try P rs w =
     (if durationMillis rs = None \<or> durationMillis rs = Some 0 then
        (case setAudioModeAsync P recording_mode w of
           (Some e, w1) \<Rightarrow> (Some e, w1)
         | (None, w1) \<Rightarrow>
             (case prepareToRecordAsync P wav_options w1 of
                (Some e, w2) \<Rightarrow> (Some e, w2)
              | (None, w2) \<Rightarrow> recorder_record P w2))
      else if isRecording rs then recorder_pause P w
      else recorder_record P w)"

text \<open>The \<open>catch\<close> block turns the error into an alert; no state setter is called.\<close>

definition handleRecord :: "'w platform \<Rightarrow> recorder_state \<Rightarrow> 's \<Rightarrow> 'w \<Rightarrow> ('s, 'w) outcome" where
  "handleRecord P rs s w =
     (case handleRecord_try P rs w of
        (None, w') \<Rightarrow> \<lparr>app = s, alerts = [], world = w', uncaught = None\<rparr>
      | (Some e, w') \<Rightarrow>
          \<lparr>app = s,
           alerts = [Alert ''Recording failed'' (Some (message_or e ''Could not record'')) []],
           world = w', uncaught = None\<rparr>)"

subsection \<open>\<open>handleSave\<close>\<close>

text \<open>
  \<^verbatim>\<open>
  const handleSave = async () => {
    if (!recorderState.durationMillis || recorderState.durationMillis === 0) {
      Alert.alert("No recording", "Please record something first");
      return;
    }
    try {
      const duration = recorderState.durationMillis;
      await audioRecorder.stop();
      const recordingURI = audioRecorder.uri;
      if (!recordingURI) {
        Alert.alert("Error", "No recording URI found");
        return;
      }
      const response = await fetch(recordingURI);
      const blob = await response.blob();
      const fileSizeKB = Math.round(blob.size / 1024);
      const newRecording: Recording = {
        id: Date.now(),
        uri: recordingURI,
        duration: Math.round(duration / 1000),
        fileSize: fileSizeKB,
      };
      setRecordings((prev) => [newRecording, ...prev]);
    } catch (error: any) {
      Alert.alert("Error", error.message || "Failed to save recording");
    }
  };
  \<close>
  \<open>fetch\<close> and \<open>response.blob()\<close> are one call of the platform, \<open>fetch_blob\<close>.
\<close>

definition no_recording_alert :: alert where
  "no_recording_alert = Alert ''No recording'' (Some ''Please record something first'') []"

text \<open>The \<open>try\<close> block for a duration \<open>d\<close> read before the recorder is stopped. It ends
  with an error, with \<open>Inr None\<close> at the early return for a missing URI (\<open>null\<close> or the
  empty string), or with the new recording.\<close>

definition handleSave_try :: "'w platform \<Rightarrow> nat \<Rightarrow> 'w \<Rightarrow> (js_error + recording option) \<times> 'w" where
  "handleSave_try P d w =
     (case recorder_stop P w of
        (Some e, w1) \<Rightarrow> (Inl e, w1)
      | (None, w1) \<Rightarrow>
          (case recorder_uri P w1 of
             None \<Rightarrow> (Inr None, w1)
           | Some recordingURI \<Rightarrow>
               if recordingURI = [] then (Inr None, w1)
               else
                 (case fetch_blob P recordingURI w1 of
                    (Inl e, w2) \<Rightarrow> (Inl e, w2)
                  | (Inr b, w2) \<Rightarrow>
                      (Inr (Some \<lparr>rec_id = date_now P w2,
                                  uri = recordingURI,
                                  duration = math_round_div d 1000,
                                  fileSize = math_round_div (blob_size b) 1024\<rparr>), w2))))"

definition handleSave :: "'w platform \<Rightarrow> recorder_state \<Rightarrow> app_state \<Rightarrow> 'w \<Rightarrow> (app_state, 'w) outcome" where
  "handleSave P rs s w =
     (case durationMillis rs of
        None \<Rightarrow> \<lparr>app = s, alerts = [no_recording_alert], world = w, uncaught = None\<rparr>
      | Some d \<Rightarrow>
          if d = 0 then \<lparr>app = s, alerts = [no_recording_alert], world = w, uncaught = None\<rparr>
          else
            (case handleSave_try P d w of
               (Inl e, w') \<Rightarrow>
                 \<lparr>app = s,
                  alerts = [Alert ''Error'' (Some (message_or e ''Failed to save recording'')) []],
                  world = w', uncaught = None\<rparr>
             | (Inr None, w') \<Rightarrow>
                 \<lparr>app = s, alerts = [Alert ''Error'' (Some ''No recording URI found'') []],
                  world = w', uncaught = None\<rparr>
             | (Inr (Some newRecording), w') \<Rightarrow>
                 \<lparr>app = s\<lparr>recordings := newRecording # recordings s\<rparr>, alerts = [],
                  world = w', uncaught = None\<rparr>))"

subsection \<open>\<open>handleCancel\<close>\<close>

text \<open>
  \<^verbatim>\<open>
  const handleCancel = async () => {
    if (recorderState.durationMillis && recorderState.durationMillis > 0) {
      await audioRecorder.stop();
    }
  };
  \<close>
  No \<open>try\<close> here: an error of \<open>stop\<close> rejects the handler's promise.
\<close>

definition handleCancel :: "'w platform \<Rightarrow> recorder_state \<Rightarrow> 's \<Rightarrow> 'w \<Rightarrow> ('s, 'w) outcome" where
  "handleCancel P rs s w =
     (case durationMillis rs of
        None \<Rightarrow> \<lparr>app = s, alerts = [], world = w, uncaught = None\<rparr>
      | Some d \<Rightarrow>
          if 0 < d then
            (case recorder_stop P w of
               (err, w') \<Rightarrow> \<lparr>app = s, alerts = [], world = w', uncaught = err\<rparr>)
          else \<lparr>app = s, alerts = [], world = w, uncaught = None\<rparr>)"

subsection \<open>The video switch\<close>

text \<open>\<open>onValueChange={setVideoEnabled}\<close>: the switch hands its new position to the state
  setter.\<close>

definition setVideoEnabled :: "bool \<Rightarrow> app_state \<Rightarrow> 'w \<Rightarrow> (app_state, 'w) outcome" where
  "setVideoEnabled v s w =
     \<lparr>app = s\<lparr>videoEnabled := v\<rparr>, alerts = [], world = w, uncaught = None\<rparr>"

subsection \<open>\<open>RecordingItem\<close>\<close>

text \<open>The props \<open>isPlaying\<close>, \<open>onPlay\<close> and \<open>onStop\<close> as \<open>App\<close> passes them.\<close>

definition isPlaying :: "app_state \<Rightarrow> recording \<Rightarrow> bool" where
  "isPlaying s r = (playingId s = Some (rec_id r))"

definition onPlay :: "recording \<Rightarrow> app_state \<Rightarrow> app_state" where
  "onPlay r s = s\<lparr>playingId := Some (rec_id r)\<rparr>"

definition onStop :: "app_state \<Rightarrow> app_state" where
  "onStop s = s\<lparr>playingId := None\<rparr>"

text \<open>
  \<^verbatim>\<open>
  const handlePress = async () => {
    if (isPlaying) {
      player.pause();
      onStop();
    } else {
      await setAudioModeAsync({ playsInSilentMode: true, allowsRecording: false });
      player.seekTo(0);
      player.play();
      onPlay();
    }
  };
  \<close>
  No \<open>try\<close>, so the first call that throws ends the handler before the state setter.
  The player of an item is named by the item's URI.
\<close>

definition handlePress :: "'w platform \<Rightarrow> recording \<Rightarrow> app_state \<Rightarrow> 'w \<Rightarrow> (app_state, 'w) outcome" where
  "handlePress P r s w =
     (if isPlaying s r then
        (case player_pause P (uri r) w of
           (Some e, w1) \<Rightarrow> \<lparr>app = s, alerts = [], world = w1, uncaught = Some e\<rparr>
         | (None, w1) \<Rightarrow> \<lparr>app = onStop s, alerts = [], world = w1, uncaught = None\<rparr>)
      else
        (case setAudioModeAsync P playback_mode w of
           (Some e, w1) \<Rightarrow> \<lparr>app = s, alerts = [], world = w1, uncaught = Some e\<rparr>
         | (None, w1) \<Rightarrow>
             (case player_seekTo P (uri r) 0 w1 of
                (Some e, w2) \<Rightarrow> \<lparr>app = s, alerts = [], world = w2, uncaught = Some e\<rparr>
              | (None, w2) \<Rightarrow>
                  (case player_play P (uri r) w2 of
                     (Some e, w3) \<Rightarrow> \<lparr>app = s, alerts = [], world = w3, uncaught = Some e\<rparr>
                   | (None, w3) \<Rightarrow>
                       \<lparr>app = onPlay r s, alerts = [], world = w3, uncaught = None\<rparr>))))"

text \<open>What the effect reads from the player of the item: \<open>player.duration\<close> and
  \<open>player.currentTime\<close>, in seconds.\<close>

record player_status =
  player_duration :: real
  player_currentTime :: real

text \<open>
  \<^verbatim>\<open>
  useEffect(() => {
    if (isPlaying && player.duration > 0 && player.currentTime >= player.duration) {
      onStop();
    }
  }, [player.currentTime, player.duration, isPlaying]);
  \<close>
  One run of the effect for the item of recording \<open>r\<close>.
\<close>

definition playback_effect :: "recording \<Rightarrow> player_status \<Rightarrow> app_state \<Rightarrow> app_state" where
  "playback_effect r p s =
     (if isPlaying s r \<and> 0 < player_duration p \<and> player_duration p \<le> player_currentTime p
      then onStop s else s)"

text \<open>The dependency array of the effect, as one render of the item computes it.\<close>

record effect_deps =
  dep_currentTime :: real
  dep_duration :: real
  dep_isPlaying :: bool

definition deps_of :: "recording \<Rightarrow> player_status \<Rightarrow> app_state \<Rightarrow> effect_deps" where
  "deps_of r p s =
     \<lparr>dep_currentTime = player_currentTime p, dep_duration = player_duration p,
      dep_isPlaying = isPlaying s r\<rparr>"

text \<open>One render of the item, given the state and the dependencies of its previous render
  (\<open>None\<close> before the first): React runs the effect after the render unless the
  dependencies are what they were.\<close>

definition render_item :: "recording \<Rightarrow> player_status \<Rightarrow> app_state \<times> effect_deps option \<Rightarrow> app_state \<times> effect_deps option" where
  "render_item r p sd =
     (case sd of
        (s, previous) \<Rightarrow>
          (if previous = Some (deps_of r p s) then s else playback_effect r p s,
           Some (deps_of r p s)))"

text \<open>Renders of the item one after another, with no press in between; each reads the
  player anew.\<close>

fun renders :: "recording \<Rightarrow> player_status list \<Rightarrow> app_state \<times> effect_deps option \<Rightarrow> app_state \<times> effect_deps option" where
  "renders r [] sd = sd"
| "renders r (p # ps) sd = renders r ps (render_item r p sd)"

subsection \<open>Events of the screen\<close>

text \<open>Every way the screen's state can change: the three recorder buttons, the switch, a
  press on a list item, and a run of an item's effect. A button event carries the
  recorder status its handler closed over. Between two of them the outside world moves on
  by itself (time passes, the duration counter advances, the clock is set): \<open>Outside\<close>.
  The buttons' \<open>disabled\<close> attributes are not modelled; a press the screen would
  not deliver is one more behaviour covered.\<close>

datatype 'w event =
    PressRecord recorder_state
  | PressSave recorder_state
  | PressCancel recorder_state
  | SwitchVideo bool
  | PressItem recording
  | EffectRun recording player_status
  | Outside "'w \<Rightarrow> 'w"

fun step :: "'w platform \<Rightarrow> 'w event \<Rightarrow> app_state \<times> 'w \<Rightarrow> (app_state, 'w) outcome" where
  "step P (PressRecord rs) (s, w) = handleRecord P rs s w"
| "step P (PressSave rs) (s, w) = handleSave P rs s w"
| "step P (PressCancel rs) (s, w) = handleCancel P rs s w"
| "step P (SwitchVideo v) (s, w) = setVideoEnabled v s w"
| "step P (PressItem r) (s, w) = handlePress P r s w"
| "step P (EffectRun r p) (s, w) =
     \<lparr>app = playback_effect r p s, alerts = [], world = w, uncaught = None\<rparr>"
| "step P (Outside change) (s, w) =
     \<lparr>app = s, alerts = [], world = change w, uncaught = None\<rparr>"

text \<open>A run of the screen: events in order, each on the state and world the previous one
  left.\<close>

fun run :: "'w platform \<Rightarrow> 'w event list \<Rightarrow> app_state \<times> 'w \<Rightarrow> app_state \<times> 'w" where
  "run P [] sw = sw"
| "run P (ev # evs) sw = (let out = step P ev sw in run P evs (app out, world out))"

section \<open>The recorder screen with login and upload (the second \<open>App\<close>)\<close>

text \<open>Its \<open>useState\<close> cells; \<open>session\<close> holds the e-mail address of the signed-in user.
  \<open>handleRecord\<close> is the same text as in \<open>App.tsx\<close>.\<close>

record upload_state =
  session :: "string option"
  email :: string
  password :: string
  isLoading :: bool
  isUploading :: bool

text \<open>\<open>audioURI.split("/")\<close>: the pieces between the slashes, at least one.\<close>

fun split_slash :: "string \<Rightarrow> string list" where
  "split_slash [] = [[]]"
| "split_slash (c # cs) =
     (if c = CHR ''/'' then [] # split_slash cs
      else (case split_slash cs of
              [] \<Rightarrow> [[c]]
            | x # xs \<Rightarrow> (c # x) # xs))"

text \<open>
  \<^verbatim>\<open>
  async function getAudioFile(audioURI: string) {
    const audio = await fetch(audioURI);
    const audioBlob = await audio.blob();
    const fileName = audioURI.split("/").pop();
    const rawType = audioBlob["_data"]?.["type"] || "audio/wav";
    const fileType = normalizeAudioMimeType(rawType);
    return { uri: audioURI, name: fileName, type: fileType };
  }
  \<close>
\<close>

definition getAudioFile :: "'w platform \<Rightarrow> string \<Rightarrow> 'w \<Rightarrow> (js_error + audio_file) \<times> 'w" where
  "getAudioFile P audioURI w =
     (case fetch_blob P audioURI w of
        (Inl e, w1) \<Rightarrow> (Inl e, w1)
      | (Inr audioBlob, w1) \<Rightarrow>
          (let fileName = last (split_slash audioURI);
               rawType = (case blob_data_type audioBlob of
                            None \<Rightarrow> ''audio/wav''
                          | Some t \<Rightarrow> if t = [] then ''audio/wav'' else t);
               fileType = normalizeAudioMimeType rawType
           in (Inr \<lparr>file_uri = audioURI, file_name = fileName, file_type = fileType\<rparr>, w1)))"

text \<open>
  \<^verbatim>\<open>
  await audioRecorder.stop();
  const recordingURI = audioRecorder.uri;
  if (!recordingURI) {
    Alert.alert("Error", "No recording URI found");
    return;
  }
  const audioFile = await getAudioFile(recordingURI);
  const formData = new FormData();
  formData.append("file", audioFile as any);
  const { data, error } = await supabase.functions.invoke("upload-audio", { body: formData });
  if (error) {
    Alert.alert("Upload failed", error.message);
  } else {
    Alert.alert("Success", "Recording uploaded successfully!");
  }
  \<close>
  The \<open>try\<close> block of the upload: it ends with a thrown error, or with the alert of the
  branch that was reached.
\<close>

definition upload_try :: "'w platform \<Rightarrow> 'w \<Rightarrow> (js_error + alert) \<times> 'w" where
  "upload_try P w =
     (case recorder_stop P w of
        (Some e, w1) \<Rightarrow> (Inl e, w1)
      | (None, w1) \<Rightarrow>
          (case recorder_uri P w1 of
             None \<Rightarrow> (Inr (Alert ''Error'' (Some ''No recording URI found'') []), w1)
           | Some recordingURI \<Rightarrow>
               if recordingURI = []
               then (Inr (Alert ''Error'' (Some ''No recording URI found'') []), w1)
               else
                 (case getAudioFile P recordingURI w1 of
                    (Inl e, w2) \<Rightarrow> (Inl e, w2)
                  | (Inr audioFile, w2) \<Rightarrow>
                      (case functions_invoke P ''upload-audio'' audioFile w2 of
                         (Inl e, w3) \<Rightarrow> (Inl e, w3)
                       | (Inr (Some err), w3) \<Rightarrow>
                           (Inr (Alert ''Upload failed'' (message err) []), w3)
                       | (Inr None, w3) \<Rightarrow>
                           (Inr (Alert ''Success'' (Some ''Recording uploaded successfully!'') []),
                            w3)))))"

text \<open>The handler has the guard of \<open>handleSave\<close> above, then \<open>setIsUploading(true)\<close>,
  the \<open>try\<close> block, and \<open>setIsUploading(false)\<close> in its \<open>finally\<close>: once the guard
  is passed the flag ends false.\<close>

definition upload_handleSave :: "'w platform \<Rightarrow> recorder_state \<Rightarrow> upload_state \<Rightarrow> 'w \<Rightarrow> (upload_state, 'w) outcome" where
  "upload_handleSave P rs s w =
     (case durationMillis rs of
        None \<Rightarrow> \<lparr>app = s, alerts = [no_recording_alert], world = w, uncaught = None\<rparr>
      | Some d \<Rightarrow>
          if d = 0 then \<lparr>app = s, alerts = [no_recording_alert], world = w, uncaught = None\<rparr>
          else
            (case upload_try P w of
               (Inl e, w') \<Rightarrow>
                 \<lparr>app = s\<lparr>isUploading := False\<rparr>,
                  alerts = [Alert ''Error'' (Some (message_or e ''Failed to save recording'')) []],
                  world = w', uncaught = None\<rparr>
             | (Inr a, w') \<Rightarrow>
                 \<lparr>app = s\<lparr>isUploading := False\<rparr>, alerts = [a], world = w', uncaught = None\<rparr>))"

definition cancel_alert :: alert where
  "cancel_alert =
     Alert ''Cancel recording?'' (Some ''This will delete the current recording'')
       [\<lparr>label = ''Keep recording'', style = ''cancel'', onPress = NoHandler\<rparr>,
        \<lparr>label = ''Delete'', style = ''destructive'', onPress = StopRecorder\<rparr>]"

text \<open>
  \<^verbatim>\<open>
  const handleCancel = async () => {
    if (recorderState.durationMillis && recorderState.durationMillis > 0) {
      Alert.alert("Cancel recording?", "This will delete the current recording", [
        { text: "Keep recording", style: "cancel" },
        { text: "Delete", style: "destructive",
          onPress: async () => { await audioRecorder.stop(); } },
      ]);
    }
  };
  \<close>
  Here \<open>handleCancel\<close> only asks; the recorder is stopped by the \<open>Delete\<close> button of the
  prompt.
\<close>

definition upload_handleCancel :: "'w platform \<Rightarrow> recorder_state \<Rightarrow> upload_state \<Rightarrow> 'w \<Rightarrow> (upload_state, 'w) outcome" where
  "upload_handleCancel P rs s w =
     (case durationMillis rs of
        None \<Rightarrow> \<lparr>app = s, alerts = [], world = w, uncaught = None\<rparr>
      | Some d \<Rightarrow>
          if 0 < d then \<lparr>app = s, alerts = [cancel_alert], world = w, uncaught = None\<rparr>
          else \<lparr>app = s, alerts = [], world = w, uncaught = None\<rparr>)"

definition press_button :: "'w platform \<Rightarrow> button_press \<Rightarrow> 's \<Rightarrow> 'w \<Rightarrow> ('s, 'w) outcome" where
  "press_button P b s w =
     (case b of
        NoHandler \<Rightarrow> \<lparr>app = s, alerts = [], world = w, uncaught = None\<rparr>
      | StopRecorder \<Rightarrow>
          (case recorder_stop P w of
             (err, w') \<Rightarrow> \<lparr>app = s, alerts = [], world = w', uncaught = err\<rparr>))"

section \<open>A simulated platform\<close>

text \<open>
  A small recorder, clock and file store to run the handlers on. A fault names the one
  call that throws; a call that throws changes nothing. Preparing chooses the file to
  write and resets the duration counter; stopping resets the counter too and assigns
  the output URI. Time passes only through \<open>elapse\<close>, and the clock is set from
  outside, as a device's clock is.
\<close>

datatype fault =
    NoFault | FailSetAudioMode | FailPrepare | FailRecord | FailPause | FailStop | FailFetch

record sim_world =
  mode :: audio_mode
  prepared :: bool
  capturing :: bool
  elapsed :: nat
  target :: string
  out_uri :: "string option"
  file_bytes :: nat
  clock :: nat

definition sim_error :: js_error where
  "sim_error = JsError (Some ''simulated failure'')"

definition sim_call :: "fault \<Rightarrow> fault \<Rightarrow> (sim_world \<Rightarrow> sim_world) \<Rightarrow> sim_world \<Rightarrow> js_error option \<times> sim_world" where
  "sim_call f which change w = (if f = which then (Some sim_error, w) else (None, change w))"

definition sim_platform :: "fault \<Rightarrow> sim_world platform" where
  "sim_platform f =
     \<lparr>setAudioModeAsync = (\<lambda>m. sim_call f FailSetAudioMode (\<lambda>w. w\<lparr>mode := m\<rparr>)),
      prepareToRecordAsync =
        (\<lambda>opts. sim_call f FailPrepare
           (\<lambda>w. w\<lparr>prepared := True, elapsed := 0,
                   target := ''file:///tmp/recording'' @ extension opts\<rparr>)),
      recorder_record = sim_call f FailRecord (\<lambda>w. w\<lparr>capturing := True\<rparr>),
      recorder_pause = sim_call f FailPause (\<lambda>w. w\<lparr>capturing := False\<rparr>),
      recorder_stop =
        sim_call f FailStop
          (\<lambda>w. w\<lparr>capturing := False, prepared := False, elapsed := 0,
                  out_uri := Some (target w)\<rparr>),
      recorder_uri = out_uri,
      getStatus = (\<lambda>w. \<lparr>durationMillis = Some (elapsed w), isRecording = capturing w\<rparr>),
      fetch_blob =
        (\<lambda>u w. if f = FailFetch then (Inl sim_error, w)
                else (Inr \<lparr>blob_size = file_bytes w, blob_data_type = Some ''audio/x-wav''\<rparr>, w)),
      date_now = clock,
      player_pause = (\<lambda>u w. (None, w)),
      player_seekTo = (\<lambda>u t w. (None, w)),
      player_play = (\<lambda>u w. (None, w)),
      functions_invoke = (\<lambda>name file w. (Inr None, w))\<rparr>"

text \<open>Capture for \<open>ms\<close> milliseconds: the duration counter and the file grow while the
  recorder is capturing (here 32 bytes per millisecond).\<close>

definition elapse :: "nat \<Rightarrow> sim_world \<Rightarrow> sim_world" where
  "elapse ms w =
     (if capturing w
      then w\<lparr>elapsed := elapsed w + ms, file_bytes := file_bytes w + 32 * ms, clock := clock w + ms\<rparr>
      else w\<lparr>clock := clock w + ms\<rparr>)"

definition sim_initial :: sim_world where
  "sim_initial =
     \<lparr>mode = recording_mode, prepared = False, capturing = False, elapsed = 0,
      target = [], out_uri = None, file_bytes = 0, clock = 1700000000000\<rparr>"

text \<open>The same platform with a recorder that publishes its output URI as soon as it is
  prepared.\<close>

definition eager_platform :: "fault \<Rightarrow> sim_world platform" where
  "eager_platform f =
     (sim_platform f)
       \<lparr>prepareToRecordAsync :=
          (\<lambda>opts. sim_call f FailPrepare
             (\<lambda>w. w\<lparr>prepared := True, elapsed := 0,
                     target := ''file:///tmp/recording'' @ extension opts,
                     out_uri := Some (''file:///tmp/recording'' @ extension opts)\<rparr>))\<rparr>"

text \<open>The world after \<open>Record\<close> was pressed on the fresh simulated device and capture ran
  for \<open>ms\<close> milliseconds.\<close>

definition sim_recorded :: "nat \<Rightarrow> sim_world" where
  "sim_recorded ms =
     elapse ms (world (handleRecord (sim_platform NoFault)
       (getStatus (sim_platform NoFault) sim_initial) initial_app_state sim_initial))"

text \<open>A saved five-second recording and the screen while it is marked as playing.\<close>

definition sample_recording :: recording where
  "sample_recording =
     \<lparr>rec_id = 1700000005000, uri = ''file:///tmp/recording.wav'', duration = 5,
      fileSize = 156\<rparr>"

definition sample_playing :: app_state where
  "sample_playing =
     \<lparr>videoEnabled = True, recordings = [sample_recording], playingId = Some 1700000005000\<rparr>"

text \<open>The upload screen after a login.\<close>

definition signed_in :: upload_state where
  "signed_in =
     \<lparr>session = Some ''user@example.org'', email = ''user@example.org'', password = [],
      isLoading = False, isUploading = False\<rparr>"

section \<open>Assumptions on the platform\<close>

text \<open>
  What \<open>handleRecord\<close> relies on when a call fails: setting the audio mode, and preparing
  a recorder that has no elapsed duration, do not touch what the screen reads from the
  recorder, whether they succeed or throw, and a \<open>record\<close> or \<open>pause\<close> that throws
  leaves it as it was.
\<close>

definition status_stable :: "'w platform \<Rightarrow> bool" where
  "status_stable P =
     ((\<forall>m v. observed P (snd (setAudioModeAsync P m v)) = observed P v) \<and>
      (\<forall>opts v. durationMillis (getStatus P v) = None \<or> durationMillis (getStatus P v) = Some 0
                 \<longrightarrow> observed P (snd (prepareToRecordAsync P opts v)) = observed P v) \<and>
      (\<forall>v. fst (recorder_record P v) \<noteq> None
           \<longrightarrow> observed P (snd (recorder_record P v)) = observed P v) \<and>
      (\<forall>v. fst (recorder_pause P v) \<noteq> None
           \<longrightarrow> observed P (snd (recorder_pause P v)) = observed P v))"

section \<open>Properties of \<open>formatTime\<close>\<close>

lemma digit_char_is_digit: "d < 10 \<Longrightarrow> is_digit (digit_char d)"
proof -
  assume "d < 10"
  then have "d \<in> {0,1,2,3,4,5,6,7,8,9}" by auto
  then show ?thesis unfolding is_digit_def digit_char_def by auto
qed

lemma digit_value_digit_char: "d < 10 \<Longrightarrow> digit_value (digit_char d) = d"
proof -
  assume "d < 10"
  then have "d \<in> {0,1,2,3,4,5,6,7,8,9}" by auto
  then show ?thesis unfolding digit_value_def digit_char_def by auto
qed

lemma decimal_value_snoc: "decimal_value (cs @ [c]) = 10 * decimal_value cs + digit_value c"
  by (simp add: decimal_value_def)

lemma decimal_value_toString: "decimal_value (toString n) = n"
proof (induction n rule: toString.induct)
  case (1 n)
  show ?case
  proof (cases "n < 10")
    case True
    then show ?thesis
      by (subst toString.simps) (simp add: decimal_value_def digit_value_digit_char)
  next
    case False
    then have "decimal_value (toString (n div 10)) = n div 10" using 1 by simp
    then show ?thesis using False
      by (subst toString.simps) (simp add: decimal_value_snoc digit_value_digit_char)
  qed
qed

lemma digits_toString: "list_all is_digit (toString n)"
proof (induction n rule: toString.induct)
  case (1 n)
  show ?case
  proof (cases "n < 10")
    case True
    then show ?thesis
      by (subst toString.simps) (simp add: digit_char_is_digit)
  next
    case False
    then have "list_all is_digit (toString (n div 10))" using 1 by simp
    then show ?thesis using False
      by (subst toString.simps) (simp add: digit_char_is_digit)
  qed
qed

lemma length_toString_small: "n < 10 \<Longrightarrow> length (toString n) = 1"
  by (subst toString.simps) simp

lemma length_toString_pos: "1 \<le> length (toString n)"
  by (subst toString.simps) simp

lemma length_toString_two: "10 \<le> n \<Longrightarrow> n < 100 \<Longrightarrow> length (toString n) = 2"
  by (subst toString.simps) (simp add: length_toString_small)

lemma length_toString_ge_two: "10 \<le> n \<Longrightarrow> 2 \<le> length (toString n)"
  using length_toString_pos [of "n div 10"] by (subst toString.simps) simp

lemma length_toString_big: "100 \<le> n \<Longrightarrow> 3 \<le> length (toString n)"
  using length_toString_ge_two [of "n div 10"] by (subst toString.simps) simp

lemma padStart_one: "length s = 1 \<Longrightarrow> padStart 2 ''0'' s = CHR ''0'' # s"
  by (simp add: padStart_def)

lemma padStart_long: "2 \<le> length s \<Longrightarrow> padStart 2 ''0'' s = s"
  by (simp add: padStart_def)

lemma decimal_value_zero_Cons: "decimal_value (CHR ''0'' # s) = decimal_value s"
  by (simp add: decimal_value_def digit_value_def)

lemma is_digit_zero: "is_digit CHR ''0''"
  by (simp add: is_digit_def)

text \<open>The padded rendering of a number: digits only, the same value, never shorter than
  two characters, and exactly two below one hundred.\<close>

lemma padded_toString:
  "list_all is_digit (padStart 2 ''0'' (toString n)) \<and>
   decimal_value (padStart 2 ''0'' (toString n)) = n \<and>
   2 \<le> length (padStart 2 ''0'' (toString n)) \<and>
   (length (padStart 2 ''0'' (toString n)) = 2) = (n < 100)"
proof -
  consider "n < 10" | "10 \<le> n" "n < 100" | "100 \<le> n" by linarith
  then show ?thesis
  proof cases
    case 1
    then have "padStart 2 ''0'' (toString n) = CHR ''0'' # toString n"
      by (simp add: padStart_one length_toString_small)
    then show ?thesis using 1
      by (simp add: decimal_value_zero_Cons decimal_value_toString digits_toString
          is_digit_zero length_toString_small)
  next
    case 2
    then have "padStart 2 ''0'' (toString n) = toString n"
      by (simp add: padStart_long length_toString_two)
    then show ?thesis using 2
      by (simp add: decimal_value_toString digits_toString length_toString_two)
  next
    case 3
    then have len: "3 \<le> length (toString n)" by (rule length_toString_big)
    then have "padStart 2 ''0'' (toString n) = toString n"
      by (simp add: padStart_long)
    then show ?thesis using 3 len
      by (simp add: decimal_value_toString digits_toString)
  qed
qed

lemma is_digit_cases: "is_digit c \<Longrightarrow> \<exists>d<10. c = digit_char d"
proof -
  assume "is_digit c"
  then obtain i where "i < length ''0123456789''" and "''0123456789'' ! i = c"
    unfolding is_digit_def in_set_conv_nth by blast
  then show ?thesis by (intro exI [of _ i]) (simp add: digit_char_def)
qed

lemma digit_value_less: "is_digit c \<Longrightarrow> digit_value c < 10"
  using is_digit_cases [of c] by (auto simp: digit_value_digit_char)

lemma digit_char_digit_value: "is_digit c \<Longrightarrow> digit_char (digit_value c) = c"
  using is_digit_cases [of c] by (auto simp: digit_value_digit_char)

lemma toString_zero: "toString 0 = ''0''"
  by (subst toString.simps) (simp add: digit_char_def)

text \<open>A string of digits without a leading zero is the rendering of the number it
  denotes.\<close>

lemma canonical_toString:
  "list_all is_digit m \<Longrightarrow> m \<noteq> [] \<Longrightarrow> hd m \<noteq> CHR ''0'' \<Longrightarrow> toString (decimal_value m) = m"
proof (induction m rule: rev_induct)
  case Nil
  then show ?case by simp
next
  case (snoc c xs)
  then have c: "is_digit c" by simp
  show ?case
  proof (cases "xs = []")
    case True
    then have "decimal_value (xs @ [c]) = digit_value c"
      by (simp add: decimal_value_def)
    then show ?thesis
      using True digit_value_less [OF c] digit_char_digit_value [OF c]
      by (subst toString.simps) simp
  next
    case False
    with snoc have ih: "toString (decimal_value xs) = xs" by simp
    have "decimal_value xs \<noteq> 0"
    proof
      assume "decimal_value xs = 0"
      with ih have "xs = ''0''" by (simp add: toString_zero)
      with snoc.prems(3) show False by simp
    qed
    then have big: "\<not> decimal_value (xs @ [c]) < 10"
      by (simp add: decimal_value_snoc)
    have "decimal_value (xs @ [c]) div 10 = decimal_value xs"
      and "decimal_value (xs @ [c]) mod 10 = digit_value c"
      using digit_value_less [OF c] by (simp_all add: decimal_value_snoc)
    then show ?thesis
      using big ih digit_char_digit_value [OF c]
      by (subst toString.simps) simp
  qed
qed

lemma padded_small:
  "n < 100 \<Longrightarrow> padStart 2 ''0'' (toString n) = [digit_char (n div 10), digit_char (n mod 10)]"
proof (cases "n < 10")
  case True
  then have "toString n = [digit_char n]" by (subst toString.simps) simp
  with True show ?thesis by (simp add: padStart_def digit_char_def)
next
  case False
  assume "n < 100"
  with False have "n div 10 < 10" by simp
  then have "toString (n div 10) = [digit_char (n div 10)]" by (subst toString.simps) simp
  with False show ?thesis
    by (subst toString.simps) (simp add: padStart_def)
qed

lemma two_digits_unique:
  assumes "list_all is_digit t" and "length t = 2"
  shows "decimal_value t < 100 \<and>
         t = [digit_char (decimal_value t div 10), digit_char (decimal_value t mod 10)]"
proof -
  from assms(2) obtain a b where t: "t = [a, b]"
    by (cases t; cases "tl t") auto
  with assms(1) have a: "is_digit a" and b: "is_digit b" by simp_all
  have v: "decimal_value t = 10 * digit_value a + digit_value b"
    by (simp add: t decimal_value_def)
  with digit_value_less [OF a] digit_value_less [OF b]
  have "decimal_value t < 100" "decimal_value t div 10 = digit_value a"
    "decimal_value t mod 10 = digit_value b"
    by simp_all
  with digit_char_digit_value [OF a] digit_char_digit_value [OF b] t show ?thesis by simp
qed

text \<open>The properties of \<open>padded_toString\<close>, with the leading zero excluded beyond two
  characters, hold of no other string.\<close>

lemma padded_unique:
  assumes "list_all is_digit m" and "decimal_value m = n" and "2 \<le> length m"
    and "length m = 2 \<or> hd m \<noteq> CHR ''0''"
  shows "m = padStart 2 ''0'' (toString n)"
proof (cases "length m = 2")
  case True
  from two_digits_unique [OF assms(1) True] assms(2) padded_small [of n]
  show ?thesis by simp
next
  case False
  with assms have "hd m \<noteq> CHR ''0''" and "m \<noteq> []" by auto
  with assms(1,2) have "toString n = m" using canonical_toString by blast
  with assms(3) show ?thesis by (simp add: padStart_def)
qed

lemma hd_toString: "0 < n \<Longrightarrow> hd (toString n) \<noteq> CHR ''0''"
proof (induction n rule: toString.induct)
  case (1 n)
  show ?case
  proof (cases "n < 10")
    case True
    with 1(2) have "n \<in> {1,2,3,4,5,6,7,8,9}" by auto
    then have "digit_char n \<noteq> CHR ''0''" by (auto simp: digit_char_def)
    with True show ?thesis by (subst toString.simps) simp
  next
    case False
    then have "0 < n div 10" by simp
    with 1(1) False have "hd (toString (n div 10)) \<noteq> CHR ''0''" by simp
    moreover have "toString (n div 10) \<noteq> []"
      using length_toString_pos [of "n div 10"] by auto
    ultimately show ?thesis using False by (subst toString.simps) simp
  qed
qed

lemma padded_leading:
  "length (padStart 2 ''0'' (toString n)) = 2 \<or> hd (padStart 2 ''0'' (toString n)) \<noteq> CHR ''0''"
proof (cases "n < 100")
  case True
  with padded_toString [of n] show ?thesis by simp
next
  case False
  then have "3 \<le> length (toString n)" by (simp add: length_toString_big)
  then have "padStart 2 ''0'' (toString n) = toString n" by (simp add: padStart_def)
  moreover from False have "hd (toString n) \<noteq> CHR ''0''" by (simp add: hd_toString)
  ultimately show ?thesis by simp
qed

text \<open>
  Claim C4. \<open>formatTime\<close> returns \<open>00:00\<close> for 0, \<open>01:05\<close> for 65 and \<open>61:01\<close> for 3661
  (minutes do not roll over into hours). In general, for a count \<open>s\<close> of seconds the result
  is exactly the string made of a minutes part, a colon and a seconds part, both of decimal
  digits only, where the seconds part denotes \<open>s mod 60\<close> in exactly two characters and
  the minutes part denotes \<open>s div 60\<close> in two characters below 100 minutes and, from 100
  minutes on, in its digits without a leading zero. No other string has these properties.
\<close>

theorem formatTime_minutes_seconds:
  "formatTime 0 = ''00:00'' \<and> formatTime 65 = ''01:05'' \<and> formatTime 3661 = ''61:01'' \<and>
   (\<forall>s str. (formatTime s = str) =
      (\<exists>m t. str = m @ '':'' @ t \<and>
         list_all is_digit m \<and> decimal_value m = s div 60 \<and>
         list_all is_digit t \<and> decimal_value t = s mod 60 \<and>
         length t = 2 \<and> 2 \<le> length m \<and> (length m = 2 \<or> hd m \<noteq> CHR ''0'') \<and>
         (length m = 2) = (s < 6000)))"
proof -
  have a: "formatTime 0 = ''00:00''" by code_simp
  have b: "formatTime 65 = ''01:05''" by code_simp
  have c: "formatTime 3661 = ''61:01''" by code_simp
  have d: "(formatTime s = str) =
      (\<exists>m t. str = m @ '':'' @ t \<and>
         list_all is_digit m \<and> decimal_value m = s div 60 \<and>
         list_all is_digit t \<and> decimal_value t = s mod 60 \<and>
         length t = 2 \<and> 2 \<le> length m \<and> (length m = 2 \<or> hd m \<noteq> CHR ''0'') \<and>
         (length m = 2) = (s < 6000))" (is "?l = ?r") for s str
  proof
    let ?m = "padStart 2 ''0'' (toString (s div 60))"
    let ?t = "padStart 2 ''0'' (toString (s mod 60))"
    have f: "formatTime s = ?m @ '':'' @ ?t" by (simp add: formatTime_def)
    have lt: "(s div 60 < 100) = (s < 6000)" by auto
    have lt2: "s mod 60 < 100" by (rule less_trans [of _ 60]) simp_all
    {
      assume ?l
      with f have "str = ?m @ '':'' @ ?t" by simp
      then show ?r
        using padded_toString [of "s div 60"] padded_toString [of "s mod 60"]
          padded_leading [of "s div 60"] lt lt2
        by (intro exI [of _ ?m] exI [of _ ?t]) simp
    }
    {
      assume ?r
      then obtain m t where str: "str = m @ '':'' @ t"
        and m: "list_all is_digit m" "decimal_value m = s div 60" "2 \<le> length m"
               "length m = 2 \<or> hd m \<noteq> CHR ''0''"
        and t: "list_all is_digit t" "decimal_value t = s mod 60" "length t = 2"
        by blast
      from padded_unique [OF m] have "m = ?m" .
      moreover from t have "t = ?t" by (intro padded_unique) simp_all
      ultimately show ?l using f str by simp
    }
  qed
  from a b c d show ?thesis by blast
qed

section \<open>Properties of \<open>normalizeAudioMimeType\<close>\<close>

lemma get_property_own:
  "get_property mimeTypeMap ''audio/x-m4a'' = Some (JString ''audio/m4a'') \<and>
   get_property mimeTypeMap ''audio/x-wav'' = Some (JString ''audio/wav'') \<and>
   get_property mimeTypeMap ''audio/vnd.wave'' = Some (JString ''audio/wav'')"
  by (simp add: get_property_def mimeTypeMap_def)

lemma normalizeAudioMimeType_cases:
  "normalizeAudioMimeType s =
     (if s = ''audio/x-m4a'' then JString ''audio/m4a''
      else if s = ''audio/x-wav'' \<or> s = ''audio/vnd.wave'' then JString ''audio/wav''
      else if s \<in> set object_prototype_keys then JInherited s
      else JString s)"
  by (simp add: normalizeAudioMimeType_def get_property_def mimeTypeMap_def)

lemma normalized_not_key:
  "''audio/m4a'' \<notin> set object_prototype_keys \<and> ''audio/wav'' \<notin> set object_prototype_keys"
  by (simp add: object_prototype_keys_def)

lemma normalize_again_idem: "normalize_again (normalizeAudioMimeType s) = normalizeAudioMimeType s"
  using normalized_not_key
  by (simp add: normalizeAudioMimeType_cases)

lemma prototype_keys_no_slash: "CHR ''/'' \<in> set s \<Longrightarrow> s \<notin> set object_prototype_keys"
  by (auto simp: object_prototype_keys_def)

text \<open>
  Claim C10. \<open>normalizeAudioMimeType\<close> maps \<open>audio/x-m4a\<close> to \<open>audio/m4a\<close>, and
  \<open>audio/x-wav\<close> and \<open>audio/vnd.wave\<close> to \<open>audio/wav\<close>; it returns every other string
  unchanged, for every string that is not a property name of \<open>Object.prototype\<close>, which
  no MIME type is, as a MIME type has a slash; and for every string, applying it twice
  gives what applying it once gives.
\<close>

theorem normalizeAudioMimeType_mime_types:
  "normalizeAudioMimeType ''audio/x-m4a'' = JString ''audio/m4a'' \<and>
   normalizeAudioMimeType ''audio/x-wav'' = JString ''audio/wav'' \<and>
   normalizeAudioMimeType ''audio/vnd.wave'' = JString ''audio/wav'' \<and>
   (\<forall>s. s \<notin> set object_prototype_keys \<and>
        s \<noteq> ''audio/x-m4a'' \<and> s \<noteq> ''audio/x-wav'' \<and> s \<noteq> ''audio/vnd.wave''
        \<longrightarrow> normalizeAudioMimeType s = JString s) \<and>
   (\<forall>s. CHR ''/'' \<in> set s \<longrightarrow> s \<notin> set object_prototype_keys) \<and>
   (\<forall>s. normalize_again (normalizeAudioMimeType s) = normalizeAudioMimeType s)"
proof (intro conjI allI impI)
  show "normalizeAudioMimeType ''audio/x-m4a'' = JString ''audio/m4a''"
    by (simp add: normalizeAudioMimeType_cases)
  show "normalizeAudioMimeType ''audio/x-wav'' = JString ''audio/wav''"
    by (simp add: normalizeAudioMimeType_cases)
  show "normalizeAudioMimeType ''audio/vnd.wave'' = JString ''audio/wav''"
    by (simp add: normalizeAudioMimeType_cases)
  show "normalizeAudioMimeType s = JString s"
    if "s \<notin> set object_prototype_keys \<and>
        s \<noteq> ''audio/x-m4a'' \<and> s \<noteq> ''audio/x-wav'' \<and> s \<noteq> ''audio/vnd.wave''" for s
    using that by (simp only: normalizeAudioMimeType_cases) simp
  show "s \<notin> set object_prototype_keys" if "CHR ''/'' \<in> set s" for s
    using that by (rule prototype_keys_no_slash)
  show "normalize_again (normalizeAudioMimeType s) = normalizeAudioMimeType s" for s
    by (rule normalize_again_idem)
qed

theorem normalizeAudioMimeType_mime_types_witness:
  "CHR ''/'' \<in> set ''audio/ogg'' \<and> ''audio/ogg'' \<notin> set object_prototype_keys \<and>
   normalizeAudioMimeType ''audio/ogg'' = JString ''audio/ogg''"
proof -
  note rest = normalizeAudioMimeType_mime_types [THEN conjunct2, THEN conjunct2, THEN conjunct2]
  note other = rest [THEN conjunct1, THEN spec, THEN mp]
  note slash = rest [THEN conjunct2, THEN conjunct1, THEN spec, THEN mp]
  have a: "CHR ''/'' \<in> set ''audio/ogg''" by simp
  have b: "''audio/ogg'' \<notin> set object_prototype_keys" by (rule slash) (rule a)
  have "normalizeAudioMimeType ''audio/ogg'' = JString ''audio/ogg''"
    by (rule other) (simp add: b)
  with a b show ?thesis by (intro conjI)
qed

text \<open>The twelve names left out are not MIME types, and the one caller, \<open>getAudioFile\<close>,
  passes the type of a fetched blob or \<open>audio/wav\<close>. Called with one of them the function
  would return the inherited member.\<close>

lemma normalizeAudioMimeType_inherited_member:
  "normalizeAudioMimeType ''constructor'' = JInherited ''constructor''"
  by (simp add: normalizeAudioMimeType_cases object_prototype_keys_def)

section \<open>Facts about the simulated platform\<close>

lemma sim_ops:
  "setAudioModeAsync (sim_platform f) = (\<lambda>m. sim_call f FailSetAudioMode (\<lambda>w. w\<lparr>mode := m\<rparr>))"
  "prepareToRecordAsync (sim_platform f) =
        (\<lambda>opts. sim_call f FailPrepare
           (\<lambda>w. w\<lparr>prepared := True, elapsed := 0,
                   target := ''file:///tmp/recording'' @ extension opts\<rparr>))"
  "recorder_record (sim_platform f) = sim_call f FailRecord (\<lambda>w. w\<lparr>capturing := True\<rparr>)"
  "recorder_pause (sim_platform f) = sim_call f FailPause (\<lambda>w. w\<lparr>capturing := False\<rparr>)"
  "recorder_stop (sim_platform f) =
     sim_call f FailStop
       (\<lambda>w. w\<lparr>capturing := False, prepared := False, elapsed := 0,
               out_uri := Some (target w)\<rparr>)"
  "recorder_uri (sim_platform f) = out_uri"
  "getStatus (sim_platform f) = (\<lambda>w. \<lparr>durationMillis = Some (elapsed w), isRecording = capturing w\<rparr>)"
  "fetch_blob (sim_platform f) =
        (\<lambda>u w. if f = FailFetch then (Inl sim_error, w)
                else (Inr \<lparr>blob_size = file_bytes w, blob_data_type = Some ''audio/x-wav''\<rparr>, w))"
  "date_now (sim_platform f) = clock"
  by (simp_all add: sim_platform_def)

lemma sim_started:
  "handleRecord (sim_platform NoFault) \<lparr>durationMillis = Some 0, isRecording = False\<rparr> s sim_initial =
     \<lparr>app = s, alerts = [],
      world = sim_initial\<lparr>prepared := True, capturing := True,
                          target := ''file:///tmp/recording.wav''\<rparr>,
      uncaught = None\<rparr>"
  by (simp add: handleRecord_def handleRecord_try_def sim_ops sim_call_def sim_initial_def wav_options_def recording_mode_def)

lemma sim_initial_status:
  "getStatus (sim_platform f) sim_initial = \<lparr>durationMillis = Some 0, isRecording = False\<rparr>"
  by (simp add: sim_ops sim_initial_def)

lemma sim_recorded_eq:
  "sim_recorded ms =
     \<lparr>mode = recording_mode, prepared = True, capturing = True, elapsed = ms,
      target = ''file:///tmp/recording.wav'', out_uri = None, file_bytes = 32 * ms,
      clock = 1700000000000 + ms\<rparr>"
proof -
  have "sim_recorded ms =
      elapse ms (sim_initial\<lparr>prepared := True, capturing := True,
                             target := ''file:///tmp/recording.wav''\<rparr>)"
    by (simp add: sim_recorded_def sim_initial_status sim_started)
  then show ?thesis
    by (simp add: elapse_def sim_initial_def)
qed

lemma sim_saved:
  "0 < d \<Longrightarrow>
   handleSave (sim_platform NoFault) \<lparr>durationMillis = Some d, isRecording = c\<rparr> s (sim_recorded ms) =
     \<lparr>app = s\<lparr>recordings :=
              \<lparr>rec_id = 1700000000000 + ms, uri = ''file:///tmp/recording.wav'',
               duration = math_round_div d 1000,
               fileSize = math_round_div (32 * ms) 1024\<rparr> # recordings s\<rparr>,
      alerts = [],
      world = (sim_recorded ms)\<lparr>capturing := False, prepared := False, elapsed := 0,
                                 out_uri := Some ''file:///tmp/recording.wav''\<rparr>,
      uncaught = None\<rparr>"
  by (simp add: sim_recorded_eq handleSave_def handleSave_try_def sim_ops sim_call_def)

lemma sim_recorded_fields:
  "target (sim_recorded ms) = ''file:///tmp/recording.wav''"
  "clock (sim_recorded ms) = 1700000000000 + ms"
  "file_bytes (sim_recorded ms) = 32 * ms"
  by (simp_all add: sim_recorded_eq)

lemma sim_status_stable: "status_stable (sim_platform f)"
  by (simp add: status_stable_def observed_def sim_ops sim_call_def)

lemma sim_record_fails:
  "handleRecord_try (sim_platform FailRecord) \<lparr>durationMillis = Some 0, isRecording = False\<rparr>
       sim_initial =
     (Some sim_error,
      sim_initial\<lparr>prepared := True, target := ''file:///tmp/recording.wav''\<rparr>)"
  by (simp add: handleRecord_try_def sim_ops sim_call_def sim_initial_def wav_options_def)

section \<open>Saving\<close>

lemma math_round_div_1000: "math_round_div d 1000 = (d + 500) div 1000"
  by (simp add: math_round_div_def)

lemma round_vs_floor: "((d + 500) div 1000 = d div 1000) = (d mod 1000 < 500)" for d :: nat
proof -
  define q where "q = d div 1000"
  define r where "r = d mod 1000"
  have d: "d = q * 1000 + r" by (simp add: q_def r_def)
  have "(q * 1000 + (r + 500)) div 1000 = q + (r + 500) div 1000"
    by (rule div_mult_self3) simp
  moreover have "((r + 500) div 1000 = 0) = (r < 500)"
    by (simp add: div_eq_0_iff)
  ultimately have "((d + 500) div 1000 = q) = (r < 500)"
    unfolding d by (simp add: add.assoc)
  then show ?thesis by (simp only: q_def r_def)
qed

lemma handleSave_try_recording:
  assumes "handleSave_try P d w = (Inr (Some r), w')"
  shows "duration r = math_round_div d 1000 \<and> rec_id r = date_now P w'"
  using assms
  by (auto simp: handleSave_try_def split: prod.splits sum.splits option.splits if_splits)

lemma handleSave_success:
  assumes "durationMillis rs = Some d" and "0 < d" and "alerts (handleSave P rs s w) = []"
  shows "\<exists>r w'. handleSave_try P d w = (Inr (Some r), w')"
  using assms
  by (auto simp: handleSave_def split: prod.splits sum.splits option.splits)

lemma handleSave_prepends:
  assumes "durationMillis rs = Some d" and "0 < d"
    and "handleSave_try P d w = (Inr (Some r), w')"
  shows "handleSave P rs s w =
           \<lparr>app = s\<lparr>recordings := r # recordings s\<rparr>, alerts = [], world = w', uncaught = None\<rparr>"
  using assms by (simp add: handleSave_def)

lemma handleSave_success_id:
  assumes "durationMillis rs = Some d" and "0 < d" and "alerts (handleSave P rs s w) = []"
  shows "\<exists>r. recordings (app (handleSave P rs s w)) = r # recordings s \<and>
             rec_id r = date_now P (world (handleSave P rs s w))"
proof -
  from handleSave_success [OF assms] obtain r w'
    where ok: "handleSave_try P d w = (Inr (Some r), w')" by blast
  from handleSave_prepends [OF assms(1,2) ok] handleSave_try_recording [OF ok]
  show ?thesis by simp
qed

text \<open>
  Claim C2. When the elapsed duration is zero or undefined, \<open>save()\<close> appends no
  Recording, leaves the screen's state and the outside world (the recorder with it) as
  they were, and raises exactly the \<open>No recording\<close> alert; on both screens.
\<close>

theorem save_without_duration:
  assumes "durationMillis rs = None \<or> durationMillis rs = Some 0"
  shows "handleSave P rs s w =
           \<lparr>app = s,
            alerts = [Alert ''No recording'' (Some ''Please record something first'') []],
            world = w, uncaught = None\<rparr> \<and>
         upload_handleSave P rs u w =
           \<lparr>app = u,
            alerts = [Alert ''No recording'' (Some ''Please record something first'') []],
            world = w, uncaught = None\<rparr>"
  using assms
  by (auto simp: handleSave_def upload_handleSave_def no_recording_alert_def)

theorem save_without_duration_witness:
  "handleSave (sim_platform FailStop) (getStatus (sim_platform FailStop) sim_initial)
       initial_app_state sim_initial =
     \<lparr>app = initial_app_state,
      alerts = [Alert ''No recording'' (Some ''Please record something first'') []],
      world = sim_initial, uncaught = None\<rparr> \<and>
   upload_handleSave (sim_platform FailStop) (getStatus (sim_platform FailStop) sim_initial)
       signed_in sim_initial =
     \<lparr>app = signed_in,
      alerts = [Alert ''No recording'' (Some ''Please record something first'') []],
      world = sim_initial, uncaught = None\<rparr>"
proof -
  have "durationMillis (getStatus (sim_platform FailStop) sim_initial) = None \<or>
        durationMillis (getStatus (sim_platform FailStop) sim_initial) = Some 0"
    by (simp add: sim_initial_status)
  from save_without_duration [OF this] show ?thesis .
qed

text \<open>
  Claim C1 as stated (the saved duration is \<open>floor(d / 1000)\<close>) fails. Record is pressed
  on a fresh device, capture runs for 1500 milliseconds, the timer shows one second (so
  the Save button is enabled), and Save is pressed: the save succeeds and stores the
  duration 2, while \<open>floor(1500 / 1000)\<close> is 1. \<open>handleSave\<close> computes
  \<open>Math.round(duration / 1000)\<close>.
\<close>

theorem save_duration_floor_counterexample:
  "map duration
     (recordings (fst (run (sim_platform NoFault)
        [PressRecord \<lparr>durationMillis = Some 0, isRecording = False\<rparr>,
         Outside (elapse 1500),
         PressSave \<lparr>durationMillis = Some 1500, isRecording = True\<rparr>]
        (initial_app_state, sim_initial))))
     = [2] \<and>
   durationSeconds \<lparr>durationMillis = Some 1500, isRecording = True\<rparr> = 1 \<and>
   (1500 :: nat) div 1000 = 1"
  by (simp add: handleRecord_def handleRecord_try_def handleSave_def handleSave_try_def
      sim_ops sim_call_def elapse_def sim_initial_def initial_app_state_def wav_options_def
      math_round_div_def durationSeconds_def)

text \<open>
  Claim C1, amended. For every elapsed duration \<open>d > 0\<close> milliseconds, a \<open>save()\<close> that
  completes without an alert puts a new Recording at the head of the list whose duration
  is \<open>d / 1000\<close> rounded to the nearest second, a half rounded up; it equals
  \<open>floor(d / 1000)\<close> exactly when the millisecond remainder is below 500.
\<close>

theorem save_duration_rounded:
  assumes "durationMillis rs = Some d" and "0 < d"
    and "alerts (handleSave P rs s w) = []"
  shows "\<exists>r. recordings (app (handleSave P rs s w)) = r # recordings s \<and>
             duration r = (d + 500) div 1000 \<and>
             (duration r = d div 1000) = (d mod 1000 < 500)"
proof -
  from handleSave_success [OF assms] obtain r w'
    where ok: "handleSave_try P d w = (Inr (Some r), w')" by blast
  then have dur: "duration r = (d + 500) div 1000"
    using handleSave_try_recording [OF ok] by (simp add: math_round_div_1000)
  with handleSave_prepends [OF assms(1,2) ok] round_vs_floor [of d] show ?thesis
    by simp
qed

theorem save_duration_rounded_witness:
  "(\<exists>r. recordings (app (handleSave (sim_platform NoFault)
            \<lparr>durationMillis = Some 5000, isRecording = True\<rparr> initial_app_state (sim_recorded 5000)))
          = r # recordings initial_app_state \<and>
        duration r = 5 \<and> (duration r = 5000 div 1000) = ((5000 :: nat) mod 1000 < 500))"
proof -
  have a: "alerts (handleSave (sim_platform NoFault)
            \<lparr>durationMillis = Some 5000, isRecording = True\<rparr> initial_app_state (sim_recorded 5000)) = []"
    using sim_saved [of 5000 True initial_app_state 5000] by simp
  have b: "durationMillis \<lparr>durationMillis = Some 5000, isRecording = True\<rparr> = Some (5000::nat)"
    by simp
  have c: "0 < (5000::nat)" by simp
  from save_duration_rounded [OF b c a] obtain r where
    r: "recordings (app (handleSave (sim_platform NoFault)
            \<lparr>durationMillis = Some 5000, isRecording = True\<rparr> initial_app_state (sim_recorded 5000)))
          = r # recordings initial_app_state"
    and d: "duration r = (5000 + 500) div 1000"
    by blast
  from d have "duration r = 5" by simp
  then have "duration r = 5 \<and> (duration r = 5000 div 1000) = ((5000 :: nat) mod 1000 < 500)"
    by simp
  with r show ?thesis by blast
qed

text \<open>
  Claim C6 as stated (identifiers are unique across saves) fails. In one run a recording
  of three seconds is saved, a second one of two seconds is made, the device's clock is
  set back by two seconds, and the second recording is saved: the clock reads the same
  millisecond at both saves, and the list holds two Recordings with one identifier.
\<close>

theorem save_identifiers_counterexample:
  "map (\<lambda>r. (rec_id r, duration r))
     (recordings (fst (run (sim_platform NoFault)
        [PressRecord \<lparr>durationMillis = Some 0, isRecording = False\<rparr>,
         Outside (elapse 3000),
         PressSave \<lparr>durationMillis = Some 3000, isRecording = True\<rparr>,
         PressRecord \<lparr>durationMillis = Some 0, isRecording = False\<rparr>,
         Outside (elapse 2000),
         Outside (\<lambda>w. w\<lparr>clock := clock w - 2000\<rparr>),
         PressSave \<lparr>durationMillis = Some 2000, isRecording = True\<rparr>]
        (initial_app_state, sim_initial))))
     = [(1700000003000, 2), (1700000003000, 3)]"
  by (simp add: handleRecord_def handleRecord_try_def handleSave_def handleSave_try_def
      sim_ops sim_call_def elapse_def sim_initial_def initial_app_state_def wav_options_def
      math_round_div_def)

text \<open>
  Claim C6, amended. The identifier of a saved Recording is the reading of \<open>Date.now()\<close>
  taken at its save. The Recordings of two successful saves have distinct identifiers
  exactly when the two readings differ.
\<close>

theorem save_identifiers:
  assumes "durationMillis rs1 = Some d1" and "0 < d1" and "alerts (handleSave P rs1 s1 w1) = []"
    and "durationMillis rs2 = Some d2" and "0 < d2" and "alerts (handleSave P rs2 s2 w2) = []"
  shows "\<exists>r1 r2.
           recordings (app (handleSave P rs1 s1 w1)) = r1 # recordings s1 \<and>
           recordings (app (handleSave P rs2 s2 w2)) = r2 # recordings s2 \<and>
           rec_id r1 = date_now P (world (handleSave P rs1 s1 w1)) \<and>
           rec_id r2 = date_now P (world (handleSave P rs2 s2 w2)) \<and>
           (rec_id r1 \<noteq> rec_id r2) =
             (date_now P (world (handleSave P rs1 s1 w1)) \<noteq>
              date_now P (world (handleSave P rs2 s2 w2)))"
proof -
  from handleSave_success_id [OF assms(1,2,3)] obtain r1 where
    r1: "recordings (app (handleSave P rs1 s1 w1)) = r1 # recordings s1"
        "rec_id r1 = date_now P (world (handleSave P rs1 s1 w1))" by blast
  from handleSave_success_id [OF assms(4,5,6)] obtain r2 where
    r2: "recordings (app (handleSave P rs2 s2 w2)) = r2 # recordings s2"
        "rec_id r2 = date_now P (world (handleSave P rs2 s2 w2))" by blast
  from r1 r2 have
    "recordings (app (handleSave P rs1 s1 w1)) = r1 # recordings s1 \<and>
     recordings (app (handleSave P rs2 s2 w2)) = r2 # recordings s2 \<and>
     rec_id r1 = date_now P (world (handleSave P rs1 s1 w1)) \<and>
     rec_id r2 = date_now P (world (handleSave P rs2 s2 w2)) \<and>
     (rec_id r1 \<noteq> rec_id r2) =
       (date_now P (world (handleSave P rs1 s1 w1)) \<noteq>
        date_now P (world (handleSave P rs2 s2 w2)))"
    by simp
  then show ?thesis by blast
qed

theorem save_identifiers_witness:
  "\<exists>r1 r2.
     recordings (app (handleSave (sim_platform NoFault)
        \<lparr>durationMillis = Some 3000, isRecording = True\<rparr> initial_app_state
        (sim_recorded 3000))) = r1 # recordings initial_app_state \<and>
     recordings (app (handleSave (sim_platform NoFault)
        \<lparr>durationMillis = Some 2000, isRecording = True\<rparr> initial_app_state
        (sim_recorded 2000))) = r2 # recordings initial_app_state \<and>
     rec_id r1 \<noteq> rec_id r2"
proof -
  let ?o1 = "handleSave (sim_platform NoFault)
        \<lparr>durationMillis = Some 3000, isRecording = True\<rparr> initial_app_state (sim_recorded 3000)"
  let ?o2 = "handleSave (sim_platform NoFault)
        \<lparr>durationMillis = Some 2000, isRecording = True\<rparr> initial_app_state (sim_recorded 2000)"
  have a1: "durationMillis \<lparr>durationMillis = Some 3000, isRecording = True\<rparr> = Some (3000::nat)"
    and a2: "durationMillis \<lparr>durationMillis = Some 2000, isRecording = True\<rparr> = Some (2000::nat)"
    and b1: "0 < (3000::nat)" and b2: "0 < (2000::nat)"
    by simp_all
  have c1: "alerts ?o1 = []" using sim_saved [of 3000 True initial_app_state 3000] by simp
  have c2: "alerts ?o2 = []" using sim_saved [of 2000 True initial_app_state 2000] by simp
  have t1: "date_now (sim_platform NoFault) (world ?o1) = 1700000003000"
    using sim_saved [of 3000 True initial_app_state 3000]
    by (simp add: sim_ops sim_recorded_fields)
  have t2: "date_now (sim_platform NoFault) (world ?o2) = 1700000002000"
    using sim_saved [of 2000 True initial_app_state 2000]
    by (simp add: sim_ops sim_recorded_fields)
  from save_identifiers [OF a1 b1 c1 a2 b2 c2] obtain r1 r2 where
    "recordings (app ?o1) = r1 # recordings initial_app_state"
    "recordings (app ?o2) = r2 # recordings initial_app_state"
    "(rec_id r1 \<noteq> rec_id r2) =
       (date_now (sim_platform NoFault) (world ?o1) \<noteq> date_now (sim_platform NoFault) (world ?o2))"
    by blast
  then show ?thesis unfolding t1 t2 by auto
qed

section \<open>Cancelling\<close>

text \<open>
  Claim C9. When the elapsed duration is zero or undefined, \<open>cancel()\<close> is a no-op: no
  alert, no call on the recorder (the outside world is the same for every platform, also
  one whose \<open>stop\<close> throws or changes it), no state change; on both screens.
\<close>

theorem cancel_without_duration:
  assumes "durationMillis rs = None \<or> durationMillis rs = Some 0"
  shows "handleCancel P rs s w = \<lparr>app = s, alerts = [], world = w, uncaught = None\<rparr> \<and>
         upload_handleCancel P rs u w = \<lparr>app = u, alerts = [], world = w, uncaught = None\<rparr>"
  using assms
  by (auto simp: handleCancel_def upload_handleCancel_def)

theorem cancel_without_duration_witness:
  "handleCancel (sim_platform FailStop) (getStatus (sim_platform FailStop) sim_initial)
       initial_app_state sim_initial =
     \<lparr>app = initial_app_state, alerts = [], world = sim_initial, uncaught = None\<rparr> \<and>
   upload_handleCancel (sim_platform FailStop) (getStatus (sim_platform FailStop) sim_initial)
       signed_in sim_initial =
     \<lparr>app = signed_in, alerts = [], world = sim_initial, uncaught = None\<rparr>"
proof -
  have "durationMillis (getStatus (sim_platform FailStop) sim_initial) = None \<or>
        durationMillis (getStatus (sim_platform FailStop) sim_initial) = Some 0"
    by (simp add: sim_initial_status)
  from cancel_without_duration [OF this] show ?thesis .
qed

section \<open>Errors inside \<open>handleRecord\<close>\<close>

lemma stable_mode:
  "status_stable P \<Longrightarrow> observed P (snd (setAudioModeAsync P m v)) = observed P v"
  by (simp add: status_stable_def)

lemma stable_prepare:
  "status_stable P \<Longrightarrow>
   durationMillis (getStatus P v) = None \<or> durationMillis (getStatus P v) = Some 0 \<Longrightarrow>
   observed P (snd (prepareToRecordAsync P opts v)) = observed P v"
  unfolding status_stable_def by blast

lemma stable_record:
  "status_stable P \<Longrightarrow> recorder_record P v = (Some e, v') \<Longrightarrow> observed P v' = observed P v"
  by (auto simp: status_stable_def dest!: spec [of _ v])

lemma stable_pause:
  "status_stable P \<Longrightarrow> recorder_pause P v = (Some e, v') \<Longrightarrow> observed P v' = observed P v"
  by (auto simp: status_stable_def dest!: spec [of _ v])

lemma handleRecord_caught:
  assumes "handleRecord_try P rs w = (Some e, w')"
  shows "handleRecord P rs s w =
           \<lparr>app = s,
            alerts = [Alert ''Recording failed'' (Some (message_or e ''Could not record'')) []],
            world = w', uncaught = None\<rparr>"
  using assms by (simp add: handleRecord_def)

lemma start_failure_status:
  assumes stable: "status_stable P"
    and idle: "durationMillis (getStatus P w) = None \<or> durationMillis (getStatus P w) = Some 0"
    and err: "(case setAudioModeAsync P m w of
                 (Some e, w1) \<Rightarrow> (Some e, w1)
               | (None, w1) \<Rightarrow>
                   (case prepareToRecordAsync P opts w1 of
                      (Some e, w2) \<Rightarrow> (Some e, w2)
                    | (None, w2) \<Rightarrow> recorder_record P w2)) = (Some e, w')"
  shows "observed P w' = observed P w"
proof -
  obtain r1 w1 where c1: "setAudioModeAsync P m w = (r1, w1)" by (cases "setAudioModeAsync P m w")
  have s1: "observed P w1 = observed P w"
    using stable_mode [OF stable, of m w] c1 by simp
  show ?thesis
  proof (cases r1)
    case (Some e1)
    with err c1 have "w' = w1" by simp
    with s1 show ?thesis by simp
  next
    case None
    obtain r2 w2 where c2: "prepareToRecordAsync P opts w1 = (r2, w2)"
      by (cases "prepareToRecordAsync P opts w1")
    have "observed P (snd (prepareToRecordAsync P opts w1)) = observed P w1"
      using idle s1 by (intro stable_prepare [OF stable]) (simp add: observed_def)
    with c2 have s2: "observed P w2 = observed P w1" by simp
    show ?thesis
    proof (cases r2)
      case (Some e2)
      with err c1 c2 None have "w' = w2" by simp
      with s1 s2 show ?thesis by simp
    next
      case n2: None
      with err c1 c2 None have r: "recorder_record P w2 = (Some e, w')" by simp
      from stable_record [OF stable r] s1 s2 show ?thesis by simp
    qed
  qed
qed

lemma observed_unchanged:
  assumes err: "handleRecord_try P rs w = (Some e, w')"
    and stable: "status_stable P"
    and current: "getStatus P w = rs"
  shows "observed P w' = observed P w"
proof (cases "durationMillis rs = None \<or> durationMillis rs = Some 0")
  case True
  with err have e2: "(case setAudioModeAsync P recording_mode w of
               (Some e, w1) \<Rightarrow> (Some e, w1)
             | (None, w1) \<Rightarrow>
                 (case prepareToRecordAsync P wav_options w1 of
                    (Some e, w2) \<Rightarrow> (Some e, w2)
                  | (None, w2) \<Rightarrow> recorder_record P w2)) = (Some e, w')"
    by (simp add: handleRecord_try_def)
  from True current
  have i2: "durationMillis (getStatus P w) = None \<or> durationMillis (getStatus P w) = Some 0"
    by simp
  show ?thesis by (rule start_failure_status [OF stable i2 e2])
next
  case False
  show ?thesis
  proof (cases "isRecording rs")
    case True
    with False err have r: "recorder_pause P w = (Some e, w')"
      by (auto simp: handleRecord_try_def split: if_splits)
    from stable_pause [OF stable r] show ?thesis .
  next
    case nr: False
    with False err have r: "recorder_record P w = (Some e, w')"
      by (auto simp: handleRecord_try_def split: if_splits)
    from stable_record [OF stable r] show ?thesis .
  qed
qed

text \<open>
  Claim C3 as stated (after every error inside \<open>startOrResume()\<close> the recording session
  state the controller observes is as before) fails. The recorder has been capturing for
  300 milliseconds; the screen has not rendered since the first press, so a second press
  on Record still sees no duration and starts anew: the audio mode is set, the recorder
  is prepared afresh, which resets its duration counter, and \<open>record\<close> throws. The
  error is caught and alerted, nothing is rolled back, and the duration the screen reads
  has gone from 300 to 0.
\<close>

theorem handleRecord_atomicity_counterexample:
  "alerts (handleRecord (sim_platform FailRecord)
      \<lparr>durationMillis = Some 0, isRecording = False\<rparr> initial_app_state (sim_recorded 300))
     = [Alert ''Recording failed'' (Some ''simulated failure'') []] \<and>
   observed (sim_platform FailRecord) (sim_recorded 300)
     = (\<lparr>durationMillis = Some 300, isRecording = True\<rparr>, None) \<and>
   observed (sim_platform FailRecord)
      (world (handleRecord (sim_platform FailRecord)
         \<lparr>durationMillis = Some 0, isRecording = False\<rparr> initial_app_state (sim_recorded 300)))
     = (\<lparr>durationMillis = Some 0, isRecording = True\<rparr>, None)"
  by (simp add: handleRecord_def handleRecord_try_def sim_ops sim_call_def sim_recorded_eq
      observed_def wav_options_def message_or_def sim_error_def)

text \<open>
  Claim C3, amended. Every error raised inside \<open>startOrResume()\<close>, by the audio-mode call,
  the preparation, \<open>record\<close> or \<open>pause\<close>, is caught and surfaced as the alert
  \<open>Recording failed\<close>; the handler's promise is not rejected, the screen's own state is
  untouched, and the recorder is left as the calls made so far left it. What the screen
  observes of the recorder (\<open>durationMillis\<close>, \<open>isRecording\<close>, the output URI) is the
  same after the call as before it when the handler has seen the recorder's current
  status and the platform is \<open>status_stable\<close>.
\<close>

theorem handleRecord_error_caught:
  assumes err: "handleRecord_try P rs w = (Some e, w')"
  shows "handleRecord P rs s w =
           \<lparr>app = s,
            alerts = [Alert ''Recording failed'' (Some (message_or e ''Could not record'')) []],
            world = w', uncaught = None\<rparr> \<and>
         (status_stable P \<and> getStatus P w = rs \<longrightarrow> observed P w' = observed P w)"
proof (intro conjI impI)
  show "handleRecord P rs s w =
           \<lparr>app = s,
            alerts = [Alert ''Recording failed'' (Some (message_or e ''Could not record'')) []],
            world = w', uncaught = None\<rparr>"
    by (rule handleRecord_caught [OF err])
  show "observed P w' = observed P w" if "status_stable P \<and> getStatus P w = rs"
    using that observed_unchanged [OF err] by simp
qed

theorem handleRecord_error_caught_witness:
  "handleRecord (sim_platform FailRecord) (getStatus (sim_platform FailRecord) sim_initial)
       initial_app_state sim_initial =
     \<lparr>app = initial_app_state,
      alerts = [Alert ''Recording failed'' (Some ''simulated failure'') []],
      world = sim_initial\<lparr>prepared := True, target := ''file:///tmp/recording.wav''\<rparr>,
      uncaught = None\<rparr> \<and>
   observed (sim_platform FailRecord)
       (sim_initial\<lparr>prepared := True, target := ''file:///tmp/recording.wav''\<rparr>) =
     observed (sim_platform FailRecord) sim_initial"
proof -
  have e: "handleRecord_try (sim_platform FailRecord)
             (getStatus (sim_platform FailRecord) sim_initial) sim_initial =
           (Some sim_error,
            sim_initial\<lparr>prepared := True, target := ''file:///tmp/recording.wav''\<rparr>)"
    by (simp add: sim_initial_status sim_record_fails)
  have m: "message_or sim_error ''Could not record'' = ''simulated failure''"
    by (simp add: message_or_def sim_error_def)
  note t = handleRecord_error_caught [OF e, of initial_app_state]
  from t [THEN conjunct1] have first:
    "handleRecord (sim_platform FailRecord) (getStatus (sim_platform FailRecord) sim_initial)
       initial_app_state sim_initial =
     \<lparr>app = initial_app_state,
      alerts = [Alert ''Recording failed'' (Some ''simulated failure'') []],
      world = sim_initial\<lparr>prepared := True, target := ''file:///tmp/recording.wav''\<rparr>,
      uncaught = None\<rparr>"
    by (simp only: m)
  have "status_stable (sim_platform FailRecord) \<and>
        getStatus (sim_platform FailRecord) sim_initial =
        getStatus (sim_platform FailRecord) sim_initial"
    by (simp add: sim_status_stable)
  with t [THEN conjunct2] have
    "observed (sim_platform FailRecord)
       (sim_initial\<lparr>prepared := True, target := ''file:///tmp/recording.wav''\<rparr>) =
     observed (sim_platform FailRecord) sim_initial"
    by (rule mp)
  with first show ?thesis by (intro conjI)
qed

text \<open>The second condition is needed as well: on a recorder that publishes its output URI
  as soon as it is prepared, a failed start changes what the screen reads even though the
  handler has seen the current status.\<close>

lemma eager_ops:
  "setAudioModeAsync (eager_platform f) = setAudioModeAsync (sim_platform f)"
  "prepareToRecordAsync (eager_platform f) =
     (\<lambda>opts. sim_call f FailPrepare
        (\<lambda>w. w\<lparr>prepared := True, elapsed := 0,
                target := ''file:///tmp/recording'' @ extension opts,
                out_uri := Some (''file:///tmp/recording'' @ extension opts)\<rparr>))"
  "recorder_record (eager_platform f) = recorder_record (sim_platform f)"
  "recorder_uri (eager_platform f) = recorder_uri (sim_platform f)"
  "getStatus (eager_platform f) = getStatus (sim_platform f)"
  by (simp_all add: eager_platform_def)

lemma eager_platform_failed_start:
  "getStatus (eager_platform FailRecord) sim_initial
     = \<lparr>durationMillis = Some 0, isRecording = False\<rparr> \<and>
   alerts (handleRecord (eager_platform FailRecord)
      \<lparr>durationMillis = Some 0, isRecording = False\<rparr> initial_app_state sim_initial)
     = [Alert ''Recording failed'' (Some ''simulated failure'') []] \<and>
   observed (eager_platform FailRecord) sim_initial
     = (\<lparr>durationMillis = Some 0, isRecording = False\<rparr>, None) \<and>
   observed (eager_platform FailRecord)
      (world (handleRecord (eager_platform FailRecord)
         \<lparr>durationMillis = Some 0, isRecording = False\<rparr> initial_app_state sim_initial))
     = (\<lparr>durationMillis = Some 0, isRecording = False\<rparr>, Some ''file:///tmp/recording.wav'')"
  by (simp add: handleRecord_def handleRecord_try_def eager_ops sim_ops sim_call_def
      sim_initial_def observed_def wav_options_def message_or_def sim_error_def)

section \<open>The video switch\<close>

text \<open>
  Claim C8. Flipping the video switch changes only \<open>videoEnabled\<close>: the recordings list,
  the playing item, the outside world and with it the recorder's status stay as they
  were, and no alert is raised.
\<close>

theorem video_switch_frame:
  "videoEnabled (app (step P (SwitchVideo v) (s, w))) = v \<and>
   recordings (app (step P (SwitchVideo v) (s, w))) = recordings s \<and>
   playingId (app (step P (SwitchVideo v) (s, w))) = playingId s \<and>
   world (step P (SwitchVideo v) (s, w)) = w \<and>
   observed P (world (step P (SwitchVideo v) (s, w))) = observed P w \<and>
   alerts (step P (SwitchVideo v) (s, w)) = [] \<and>
   uncaught (step P (SwitchVideo v) (s, w)) = None"
  by (simp add: setVideoEnabled_def)

section \<open>The end of playback\<close>

lemma renders_append: "renders r (ps @ qs) sd = renders r qs (renders r ps sd)"
  by (induction ps arbitrary: sd) simp_all

lemma render_item_state:
  "fst (render_item r p (s, d)) = s \<or> fst (render_item r p (s, d)) = s\<lparr>playingId := None\<rparr>"
  by (simp add: render_item_def playback_effect_def onStop_def)

lemma render_item_deps:
  "snd (render_item r p (s, d)) = Some (deps_of r p s)"
  by (simp add: render_item_def)

lemma render_item_cleared:
  "playingId s = None \<Longrightarrow> fst (render_item r p (s, d)) = s"
  by (simp add: render_item_def playback_effect_def isPlaying_def)

lemma renders_cleared:
  "playingId (fst sd) = None \<Longrightarrow> fst (renders r ps sd) = fst sd"
proof (induction ps arbitrary: sd)
  case Nil
  show ?case by simp
next
  case (Cons p ps)
  obtain s d where sd: "sd = (s, d)" by (cases sd)
  with Cons.prems have "fst (render_item r p sd) = s"
    by (simp add: render_item_cleared)
  with Cons.IH [of "render_item r p sd"] Cons.prems sd show ?case by simp
qed

text \<open>With no press in between, renders leave the state as it was or with the playing
  item cleared.\<close>

lemma renders_state:
  "fst (renders r ps (s, d)) = s \<or> fst (renders r ps (s, d)) = s\<lparr>playingId := None\<rparr>"
proof (induction ps arbitrary: s d)
  case Nil
  show ?case by simp
next
  case (Cons p ps)
  obtain s1 d1 where st: "render_item r p (s, d) = (s1, d1)" by (cases "render_item r p (s, d)")
  with render_item_state [of r p s d] have "s1 = s \<or> s1 = s\<lparr>playingId := None\<rparr>" by simp
  with Cons.IH [of s1 d1] st show ?case by auto
qed

text \<open>While every render sees the position below the duration, nothing is cleared.\<close>

lemma renders_before_end:
  "list_all (\<lambda>p. player_currentTime p < player_duration p) ps \<Longrightarrow>
   fst (renders r ps (s, d)) = s"
proof (induction ps arbitrary: d)
  case Nil
  show ?case by simp
next
  case (Cons p ps)
  then have "render_item r p (s, d) = (s, Some (deps_of r p s))"
    by (simp add: render_item_def playback_effect_def)
  with Cons show ?case by simp
qed

lemma render_reaching_end:
  assumes "isPlaying s r"
    and "d = Some prev" and "0 \<le> dep_currentTime prev"
    and "dep_currentTime prev < player_duration q"
    and "player_duration q \<le> player_currentTime q"
  shows "fst (render_item r q (s, d)) = s\<lparr>playingId := None\<rparr>"
proof -
  from assms have "dep_currentTime prev \<noteq> dep_currentTime (deps_of r q s)"
    by (simp add: deps_of_def)
  then have "prev \<noteq> deps_of r q s" by auto
  moreover from assms have "0 < player_duration q" by simp
  ultimately show ?thesis using assms
    by (simp add: render_item_def playback_effect_def onStop_def)
qed

text \<open>
  Claim C5. Let the item of a Recording be marked as playing and be rendered any number
  of times, with no press in between. If one render sees the playback position, which is
  never negative, below the duration the player reports and the next render sees it at
  or past that duration, then the playing item has been cleared (\<open>playingId\<close> is null)
  and nothing else has changed: at that render the dependencies of the effect differ from
  the previous ones, so the effect runs and calls \<open>onStop\<close>, and later renders keep it so.
\<close>

theorem playback_end_clears:
  assumes playing: "isPlaying s r"
    and nonneg: "0 \<le> player_currentTime p"
    and below: "player_currentTime p < player_duration q"
    and reached: "player_duration q \<le> player_currentTime q"
  shows "fst (renders r (before @ p # q # after) (s, d)) = s\<lparr>playingId := None\<rparr>"
proof -
  obtain s1 d1 where b: "renders r before (s, d) = (s1, d1)" by (cases "renders r before (s, d)")
  with renders_state [of r before s d]
  have s1: "s1 = s \<or> s1 = s\<lparr>playingId := None\<rparr>" by simp
  obtain s2 d2 where p: "render_item r p (s1, d1) = (s2, d2)" by (cases "render_item r p (s1, d1)")
  with render_item_state [of r p s1 d1] s1
  have s2: "s2 = s \<or> s2 = s\<lparr>playingId := None\<rparr>" by auto
  from p render_item_deps [of r p s1 d1] have d2: "d2 = Some (deps_of r p s1)" by simp
  have run: "renders r (before @ p # q # after) (s, d) = renders r after (render_item r q (s2, d2))"
    by (simp add: renders_append b p)
  from s2 show ?thesis
  proof
    assume eq: "s2 = s"
    have "fst (render_item r q (s2, d2)) = s2\<lparr>playingId := None\<rparr>"
      using playing nonneg below reached
      by (intro render_reaching_end [OF _ d2]) (simp_all add: eq deps_of_def)
    then have "fst (renders r after (render_item r q (s2, d2))) = s2\<lparr>playingId := None\<rparr>"
      using renders_cleared [of "render_item r q (s2, d2)" r after] by simp
    with run eq show ?thesis by simp
  next
    assume eq: "s2 = s\<lparr>playingId := None\<rparr>"
    then have "fst (render_item r q (s2, d2)) = s2"
      by (simp add: render_item_cleared)
    then have "fst (renders r after (render_item r q (s2, d2))) = s2"
      using renders_cleared [of "render_item r q (s2, d2)" r after] eq by simp
    with run eq show ?thesis by simp
  qed
qed

theorem playback_end_clears_witness:
  "fst (renders sample_recording
         ([\<lparr>player_duration = 0, player_currentTime = 0\<rparr>] @
          \<lparr>player_duration = 5, player_currentTime = 4.5\<rparr> #
          \<lparr>player_duration = 5, player_currentTime = 5\<rparr> # [])
         (sample_playing, None)) =
     sample_playing\<lparr>playingId := None\<rparr>"
proof -
  have a: "isPlaying sample_playing sample_recording"
    by (simp add: isPlaying_def sample_playing_def sample_recording_def)
  have b: "0 \<le> player_currentTime \<lparr>player_duration = 5, player_currentTime = 4.5\<rparr>" by simp
  have c: "player_currentTime \<lparr>player_duration = 5, player_currentTime = 4.5\<rparr>
             < player_duration \<lparr>player_duration = 5, player_currentTime = 5\<rparr>" by simp
  have d: "player_duration \<lparr>player_duration = 5, player_currentTime = 5\<rparr>
             \<le> player_currentTime \<lparr>player_duration = 5, player_currentTime = 5\<rparr>" by simp
  from playback_end_clears [OF a b c d] show ?thesis .
qed

section \<open>The recordings list\<close>

lemma handleSave_recordings:
  "recordings (app (handleSave P rs s w)) = recordings s \<or>
   (\<exists>r. recordings (app (handleSave P rs s w)) = r # recordings s)"
  by (simp add: handleSave_def split: option.splits prod.splits sum.splits)

lemma handlePress_recordings: "recordings (app (handlePress P r s w)) = recordings s"
  by (simp add: handlePress_def onStop_def onPlay_def split: option.splits prod.splits)

lemma handleRecord_app: "app (handleRecord P rs s w) = s"
  by (simp add: handleRecord_def split: option.splits prod.splits)

lemma handleCancel_app: "app (handleCancel P rs s w) = s"
  by (simp add: handleCancel_def split: option.splits prod.splits)

lemma playback_effect_recordings: "recordings (playback_effect r p s) = recordings s"
  by (simp add: playback_effect_def onStop_def)

lemma step_recordings:
  "recordings (app (step P ev (s, w))) = recordings s \<or>
   (\<exists>rs r. ev = PressSave rs \<and> recordings (app (step P ev (s, w))) = r # recordings s)"
proof (cases ev)
  case (PressSave rs)
  then show ?thesis using handleSave_recordings [of P rs s w] by auto
qed (simp_all add: handleRecord_app handleCancel_app setVideoEnabled_def handlePress_recordings
      playback_effect_recordings)

lemma step_suffix: "suffix (recordings s) (recordings (app (step P ev (s, w))))"
  using step_recordings [of P ev s w] by (auto simp: suffix_Cons)

lemma run_suffix: "suffix (recordings s) (recordings (fst (run P evs (s, w))))"
proof (induction evs arbitrary: s w)
  case Nil
  show ?case by simp
next
  case (Cons ev evs)
  have "suffix (recordings (app (step P ev (s, w))))
          (recordings (fst (run P evs (app (step P ev (s, w)), world (step P ev (s, w))))))"
    by (rule Cons.IH)
  with step_suffix [of s P ev w] show ?case
    by (simp add: Let_def)
qed

text \<open>
  Claim C7. Every event of the screen leaves the recordings list as it was or, for a save,
  puts one new Recording in front of the unchanged old list; a save that completes
  without an alert does put one in front. Hence after every run of events the list it
  started from is still there, unchanged and in order, behind the newer Recordings: the
  list is ordered most recent first, and nothing reorders or alters an entry.
\<close>

theorem recordings_most_recent_first:
  "(recordings (app (step P ev (s, w))) = recordings s \<or>
    (\<exists>rs r. ev = PressSave rs \<and> recordings (app (step P ev (s, w))) = r # recordings s)) \<and>
   (\<forall>rs d. durationMillis rs = Some d \<and> 0 < d \<and> alerts (step P (PressSave rs) (s, w)) = []
      \<longrightarrow> (\<exists>r. recordings (app (step P (PressSave rs) (s, w))) = r # recordings s)) \<and>
   suffix (recordings s) (recordings (fst (run P evs (s, w))))"
proof -
  have "\<exists>r. recordings (app (step P (PressSave rs) (s, w))) = r # recordings s"
    if "durationMillis rs = Some d" "0 < d" "alerts (step P (PressSave rs) (s, w)) = []" for rs d
    using handleSave_success_id [of rs d P s w] that by auto
  with step_recordings [of P ev s w] run_suffix [of s P evs w] show ?thesis by blast
qed

theorem recordings_most_recent_first_witness:
  "(\<exists>r. recordings (app (step (sim_platform NoFault)
            (PressSave \<lparr>durationMillis = Some 3000, isRecording = True\<rparr>)
            (sample_playing, sim_recorded 3000))) = r # recordings sample_playing) \<and>
   suffix (recordings sample_playing)
     (recordings (fst (run (sim_platform NoFault)
        [PressSave \<lparr>durationMillis = Some 3000, isRecording = True\<rparr>, SwitchVideo False,
         PressItem sample_recording,
         PressRecord \<lparr>durationMillis = Some 0, isRecording = False\<rparr>, Outside (elapse 2000),
         PressSave \<lparr>durationMillis = Some 2000, isRecording = True\<rparr>]
        (sample_playing, sim_recorded 3000))))"
proof -
  let ?rs = "\<lparr>durationMillis = Some (3000::nat), isRecording = True\<rparr>"
  have a: "alerts (step (sim_platform NoFault) (PressSave ?rs)
                    (sample_playing, sim_recorded 3000)) = []"
    using sim_saved [of 3000 True sample_playing 3000] by simp
  have b: "durationMillis ?rs = Some 3000 \<and> 0 < (3000::nat)" by simp
  from recordings_most_recent_first [of "sim_platform NoFault" "SwitchVideo False"
      sample_playing "sim_recorded 3000"
      "[PressSave ?rs, SwitchVideo False, PressItem sample_recording,
        PressRecord \<lparr>durationMillis = Some 0, isRecording = False\<rparr>, Outside (elapse 2000),
        PressSave \<lparr>durationMillis = Some 2000, isRecording = True\<rparr>]"] a b
  show ?thesis by blast
qed

end
